theory Spec2Isabelle
  imports Complex_Main "HOL-Library.Sublist"
begin

section \<open>Python strings\<close>

text \<open>
  A Python \<open>str\<close> is a sequence of Unicode code points, and the vocabulary of the
  program (weekday names, parity aliases, room names) is Cyrillic. A string is therefore
  a list of code points, each a natural number; \<open>asc\<close> writes the ASCII part of a
  string readably.
\<close>

type_synonym ustr = "nat list"

abbreviation asc :: "string \<Rightarrow> ustr" where
  "asc s \<equiv> map of_char s"

text \<open>
  \<open>str.isspace\<close>, which \<open>str.strip()\<close>, \<open>str.split()\<close> and the regular
  expression class \<open>\s\<close> all use: the 29 white-space code points of Unicode.
\<close>

definition is_space :: "nat \<Rightarrow> bool" where
  "is_space c \<longleftrightarrow>
     (9 \<le> c \<and> c \<le> 13) \<or> (28 \<le> c \<and> c \<le> 32) \<or> c = 133 \<or> c = 160 \<or> c = 5760 \<or>
     (8192 \<le> c \<and> c \<le> 8202) \<or> c = 8232 \<or> c = 8233 \<or> c = 8239 \<or> c = 8287 \<or> c = 12288"

text \<open>
  The class \<open>\d\<close> of a \<open>str\<close> pattern is the Unicode category Nd, which \<open>int()\<close>
  reads too: 66 runs of ten consecutive code points (Unicode 14), each starting at the
  digit zero of a script. \<open>nd_zeros\<close> lists the zeros in ascending order.
\<close>

definition nd_zeros :: "nat list" where
  "nd_zeros =
    [48, 1632, 1776, 1984, 2406, 2534, 2662, 2790, 2918, 3046, 3174, 3302, 3430, 3558,
     3664, 3792, 3872, 4160, 4240, 6112, 6160, 6470, 6608, 6784, 6800, 6992, 7088, 7232,
     7248, 42528, 43216, 43264, 43472, 43504, 43600, 44016, 65296, 66720, 68912, 69734,
     69872, 69942, 70096, 70384, 70736, 70864, 71248, 71360, 71472, 71904, 72016, 72784,
     73040, 73120, 92768, 92864, 93008, 120782, 120792, 120802, 120812, 120822, 123200,
     123632, 125264, 130032]"

definition digit_val :: "nat \<Rightarrow> nat option" where
  "digit_val c = map_option (\<lambda>z. c - z) (find (\<lambda>z. z \<le> c \<and> c < z + 10) nd_zeros)"

definition is_digit :: "nat \<Rightarrow> bool" where
  "is_digit c \<longleftrightarrow> digit_val c \<noteq> None"

text \<open>\<open>s.strip()\<close>: white space removed at both ends.\<close>

definition strip :: "ustr \<Rightarrow> ustr" where
  "strip s = rev (dropWhile is_space (rev (dropWhile is_space s)))"

text \<open>
  \<open>s.split()\<close>: the maximal runs of characters that are not white space, in order.
  \<open>cur\<close> holds the run being read, reversed.
\<close>

fun split_run :: "ustr \<Rightarrow> ustr \<Rightarrow> ustr list" where
  "split_run cur [] = (if cur = [] then [] else [rev cur])"
| "split_run cur (c # cs) =
     (if is_space c then (if cur = [] then split_run [] cs else rev cur # split_run [] cs)
      else split_run (c # cur) cs)"

definition split_ws :: "ustr \<Rightarrow> ustr list" where
  "split_ws s = split_run [] s"

text \<open>\<open>s.split(sep)\<close> for a one-character \<open>sep\<close>: empty pieces are kept.\<close>

fun split_on :: "nat \<Rightarrow> ustr \<Rightarrow> ustr list" where
  "split_on sep [] = [[]]"
| "split_on sep (c # cs) =
     (if c = sep then [] # split_on sep cs
      else (case split_on sep cs of [] \<Rightarrow> [[c]] | p # ps \<Rightarrow> (c # p) # ps))"

text \<open>\<open>s.find(sub)\<close>: the lowest index where \<open>sub\<close> starts, or \<open>-1\<close>.\<close>

fun find_str :: "ustr \<Rightarrow> ustr \<Rightarrow> int" where
  "find_str sub [] = (if sub = [] then 0 else -1)"
| "find_str sub (c # cs) =
     (if prefix sub (c # cs) then 0
      else (let i = find_str sub cs in if i = -1 then -1 else i + 1))"

text \<open>
  The value of a string of decimal digits in base ten, as \<open>int()\<close> computes it; a
  character that is no digit counts as zero, and never occurs where the program calls it.
\<close>

definition decimal_value :: "ustr \<Rightarrow> int" where
  "decimal_value ds = foldl (\<lambda>acc c. 10 * acc + int (case digit_val c of None \<Rightarrow> 0 | Some d \<Rightarrow> d)) 0 ds"

text \<open>
  \<open>int(s)\<close> on a string: white space around, an optional sign, then digits with single
  underscores allowed between them. \<open>None\<close> is \<open>ValueError\<close>. The white space that
  \<open>int()\<close> skips is that of \<open>str.isspace\<close> without the four separators U+001C to
  U+001F. (The interpreter's limit of 4300 digits is beyond the length of a chat message
  and is not modelled.)
\<close>

definition int_space :: "nat \<Rightarrow> bool" where
  "int_space c \<longleftrightarrow> is_space c \<and> \<not> (28 \<le> c \<and> c \<le> 31)"

definition py_int :: "ustr \<Rightarrow> int option" where
  "py_int s =
     (let t = rev (dropWhile int_space (rev (dropWhile int_space s)));
          (neg, body) = (case t of [] \<Rightarrow> (False, [])
                         | c # r \<Rightarrow> if c = 45 then (True, r) else if c = 43 then (False, r) else (False, t));
          groups = split_on 95 body
      in if list_all (\<lambda>g. g \<noteq> [] \<and> list_all is_digit g) groups
         then Some ((if neg then -1 else 1) * decimal_value (concat groups))
         else None)"

text \<open>\<open>str(n)\<close> of an integer: its decimal digits, with a minus sign when negative.\<close>

fun nat_digits :: "nat \<Rightarrow> ustr" where
  "nat_digits n = (if n < 10 then [48 + n] else nat_digits (n div 10) @ [48 + n mod 10])"

declare nat_digits.simps [simp del]

definition py_str :: "int \<Rightarrow> ustr" where
  "py_str n = (if n < 0 then 45 # nat_digits (nat (- n)) else nat_digits (nat n))"

section \<open>Dates and the week number\<close>

text \<open>
  A \<open>datetime.date\<close> is represented by its proleptic Gregorian ordinal
  (\<open>date.toordinal()\<close>): dates are ordered as their ordinals are, and the difference of
  two dates is a \<open>timedelta\<close> whose \<open>days\<close> is the difference of the ordinals.
\<close>

datatype date = Date (toordinal: int)

datatype timedelta = Timedelta (days: int)

definition date_sub :: "date \<Rightarrow> date \<Rightarrow> timedelta" where
  "date_sub a b = Timedelta (toordinal a - toordinal b)"

definition date_le :: "date \<Rightarrow> date \<Rightarrow> bool" where
  "date_le a b \<longleftrightarrow> toordinal a \<le> toordinal b"

definition date_less :: "date \<Rightarrow> date \<Rightarrow> bool" where
  "date_less a b \<longleftrightarrow> toordinal a < toordinal b"

text \<open>
  \<^verbatim>\<open>delta_days = (today - start).days
  return (delta_days // 7) + 1 if delta_days >= 0 else 0\<close>
  Python's \<open>//\<close> rounds down, as \<open>div\<close> on \<open>int\<close> does.
\<close>

definition week_number :: "date \<Rightarrow> date \<Rightarrow> int" where
  "week_number today start =
     (let delta_days = days (date_sub today start)
      in if delta_days \<ge> 0 then (delta_days div 7) + 1 else 0)"

section \<open>Lessons\<close>

record lesson =
  title :: ustr
  room :: ustr
  weeks_spec :: ustr
  weeks :: "int list"
  parity :: "ustr option"

text \<open>
  \<^verbatim>\<open>if wk <= 0: return False
  if wk not in lesson.weeks: return False
  if lesson.parity == "odd" and wk % 2 == 0: return False
  if lesson.parity == "even" and wk % 2 == 1: return False
  return True\<close>
\<close>

definition lesson_matches_week :: "lesson \<Rightarrow> int \<Rightarrow> bool" where
  "lesson_matches_week l wk =
     (if wk \<le> 0 then False
      else if wk \<notin> set (weeks l) then False
      else if parity l = Some (asc ''odd'') \<and> wk mod 2 = 0 then False
      else if parity l = Some (asc ''even'') \<and> wk mod 2 = 1 then False
      else True)"

section \<open>Constants of the program\<close>

text \<open>
  \<open>SLOTS\<close>: the four fixed slots and their time labels.
\<close>

definition SLOTS :: "(int \<times> ustr) list" where
  "SLOTS = [(1, asc ''8:30-10:05''), (2, asc ''10:20-11:55''), (3, asc ''12:10-13:45''),
            (4, asc ''14:45-16:20'')]"

text \<open>
  \<open>RU_WEEKDAYS\<close>: the seven Russian weekday names, Monday first, in lower case
  (ponedel'nik, vtornik, sreda, chetverg, pyatnitsa, subbota, voskresen'e).
\<close>

definition ponedelnik :: ustr where
  "ponedelnik = [1087, 1086, 1085, 1077, 1076, 1077, 1083, 1100, 1085, 1080, 1082]"

definition vtornik :: ustr where
  "vtornik = [1074, 1090, 1086, 1088, 1085, 1080, 1082]"

definition sreda :: ustr where
  "sreda = [1089, 1088, 1077, 1076, 1072]"

definition chetverg :: ustr where
  "chetverg = [1095, 1077, 1090, 1074, 1077, 1088, 1075]"

definition pyatnitsa :: ustr where
  "pyatnitsa = [1087, 1103, 1090, 1085, 1080, 1094, 1072]"

definition subbota :: ustr where
  "subbota = [1089, 1091, 1073, 1073, 1086, 1090, 1072]"

definition voskresenye :: ustr where
  "voskresenye = [1074, 1086, 1089, 1082, 1088, 1077, 1089, 1077, 1085, 1100, 1077]"

definition RU_WEEKDAYS :: "ustr list" where
  "RU_WEEKDAYS = [ponedelnik, vtornik, sreda, chetverg, pyatnitsa, subbota, voskresenye]"

text \<open>
  The two symbolic rooms: \<open>room_do\<close> is U+0434 / U+043E (remote teaching), \<open>room_szal\<close>
  is U+0441 / U+0437 U+0430 U+043B (the gymnasium). \<open>ROOM_CANON\<close> maps each to itself.
\<close>

definition room_do :: ustr where
  "room_do = [1076, 47, 1086]"

definition room_szal :: ustr where
  "room_szal = [1089, 47, 1079, 1072, 1083]"

definition ROOM_CANON :: "(ustr \<times> ustr) list" where
  "ROOM_CANON = [(room_do, room_do), (room_szal, room_szal)]"

text \<open>
  \<open>str.lower()\<close> is a parameter \<open>lower\<close> of every function that calls it, so that
  what is proved holds whatever the Unicode tables of the interpreter say. \<open>lower_basic\<close>
  is \<open>str.lower()\<close> on the Basic Latin and Cyrillic (U+0400 to U+045F) blocks, which
  hold every string of the examples.
\<close>

definition lower_cp :: "nat \<Rightarrow> nat" where
  "lower_cp c =
     (if 65 \<le> c \<and> c \<le> 90 then c + 32
      else if 1040 \<le> c \<and> c \<le> 1071 then c + 32
      else if 1024 \<le> c \<and> c \<le> 1039 then c + 80
      else c)"

definition lower_basic :: "ustr \<Rightarrow> ustr" where
  "lower_basic s = map lower_cp s"

section \<open>The room validator\<close>

datatype error =
    ErrMinParts            \<comment> \<open>fewer than 4 parts\<close>
  | ErrDay                 \<comment> \<open>the day is not a weekday name\<close>
  | ErrSlotRange           \<comment> \<open>the slot is an integer outside 1..4\<close>
  | ErrSlotNumber          \<comment> \<open>the slot is not an integer\<close>
  | ErrBrackets            \<comment> \<open>no brackets with the weeks\<close>
  | ErrRoomMissing         \<comment> \<open>no room token\<close>
  | ErrRoomOneWord         \<comment> \<open>the room must be one word\<close>
  | ErrRoomInvalid         \<comment> \<open>the room is neither digits nor a symbolic room\<close>
  | ErrRoomNotGiven        \<comment> \<open>no token after the brackets\<close>
  | ErrRoomAfterBrackets   \<comment> \<open>nothing after the brackets\<close>
  | IndexError             \<comment> \<open>the exception of an out-of-range index\<close>

text \<open>\<^verbatim>\<open>tok.strip().lower().replace("\\", "/")\<close>\<close>

definition normalize_room_token :: "(ustr \<Rightarrow> ustr) \<Rightarrow> ustr \<Rightarrow> ustr" where
  "normalize_room_token lower tok = map (\<lambda>c. if c = 92 then 47 else c) (lower (strip tok))"

text \<open>\<open>ROOM_DIGITS_RE.fullmatch(raw)\<close> for the pattern \<^verbatim>\<open>^\d{1,5}$\<close>: one to five digits.\<close>

definition ROOM_DIGITS_RE_fullmatch :: "ustr \<Rightarrow> bool" where
  "ROOM_DIGITS_RE_fullmatch raw \<longleftrightarrow> 1 \<le> length raw \<and> length raw \<le> 5 \<and> list_all is_digit raw"

text \<open>
  The source returns a pair \<open>(room, error)\<close> with exactly one component \<open>None\<close>;
  the model returns the error on the left or the room on the right.
\<close>

definition parse_room_from_tokens :: "(ustr \<Rightarrow> ustr) \<Rightarrow> ustr list \<Rightarrow> nat \<Rightarrow> error + ustr" where
  "parse_room_from_tokens lower tokens start_idx =
     (if start_idx \<ge> length tokens then Inl ErrRoomMissing
      else if length (drop start_idx tokens) \<noteq> 1 then Inl ErrRoomOneWord
      else (let raw = normalize_room_token lower (tokens ! start_idx)
            in case map_of ROOM_CANON raw of
                 Some canon \<Rightarrow> Inr canon
               | None \<Rightarrow> if ROOM_DIGITS_RE_fullmatch raw then Inr raw else Inl ErrRoomInvalid))"

section \<open>Parsing the weeks\<close>

text \<open>
  \<open>range_re.match(part)\<close> for \<^verbatim>\<open>^\s*(\d+)\s*-\s*(\d+)\s*$\<close> and \<open>num_re.match(part)\<close>
  for \<^verbatim>\<open>^\s*(\d+)\s*$\<close>, returning the groups. White space, digits and the hyphen are
  disjoint classes, so each starred or plussed class takes the longest run there is and
  the match is found by one scan from the left.
\<close>

definition range_re_match :: "ustr \<Rightarrow> (ustr \<times> ustr) option" where
  "range_re_match s =
     (let s1 = dropWhile is_space s;
          g1 = takeWhile is_digit s1;
          s2 = dropWhile is_space (dropWhile is_digit s1)
      in if g1 = [] then None
         else (case s2 of
                 [] \<Rightarrow> None
               | c # s3 \<Rightarrow>
                   if c \<noteq> 45 then None
                   else (let s4 = dropWhile is_space s3;
                             g2 = takeWhile is_digit s4;
                             s5 = dropWhile is_space (dropWhile is_digit s4)
                         in if g2 = [] \<or> s5 \<noteq> [] then None else Some (g1, g2))))"

definition num_re_match :: "ustr \<Rightarrow> ustr option" where
  "num_re_match s =
     (let s1 = dropWhile is_space s;
          g1 = takeWhile is_digit s1;
          s2 = dropWhile is_space (dropWhile is_digit s1)
      in if g1 = [] \<or> s2 \<noteq> [] then None else Some g1)"

text \<open>
  The body of the loop over \<open>spec.split(",")\<close>: \<open>weeks_set\<close> is the set \<open>weeks\<close> built so far.
  \<^verbatim>\<open>part = part.strip()
  if not part: continue
  m = range_re.match(part)
  if m:
      a, b = int(m.group(1)), int(m.group(2))
      if a > b: a, b = b, a
      for w in range(a, b + 1):
          if 1 <= w <= max_week: weeks.add(w)
      continue
  m = num_re.match(part)
  if m:
      w = int(m.group(1))
      if 1 <= w <= max_week: weeks.add(w)\<close>
\<close>

definition add_week :: "int \<Rightarrow> int \<Rightarrow> int set \<Rightarrow> int set" where
  "add_week max_week w weeks_set = (if 1 \<le> w \<and> w \<le> max_week then insert w weeks_set else weeks_set)"

definition parse_weeks_part :: "int \<Rightarrow> ustr \<Rightarrow> int set \<Rightarrow> int set" where
  "parse_weeks_part max_week part0 weeks_set =
     (let part = strip part0
      in if part = [] then weeks_set
         else (case range_re_match part of
                 Some (g1, g2) \<Rightarrow>
                   (let a0 = decimal_value g1; b0 = decimal_value g2;
                        a = (if a0 > b0 then b0 else a0);
                        b = (if a0 > b0 then a0 else b0)
                    in fold (add_week max_week) [a..b] weeks_set)
               | None \<Rightarrow>
                   (case num_re_match part of
                      Some g \<Rightarrow> add_week max_week (decimal_value g) weeks_set
                    | None \<Rightarrow> weeks_set)))"

text \<open>
  \<^verbatim>\<open>if not spec:
      return list(range(1, max_week + 1))
  weeks = set()
  for part in spec.split(","): ...
  return sorted(weeks) if weeks else list(range(1, max_week + 1))\<close>
\<close>

definition parse_weeks :: "ustr \<Rightarrow> int \<Rightarrow> int list" where
  "parse_weeks spec max_week =
     (if spec = [] then [1..max_week]
      else (let weeks_set = fold (parse_weeks_part max_week) (split_on 44 spec) {}
            in if weeks_set \<noteq> {} then sorted_list_of_set weeks_set else [1..max_week]))"

section \<open>The parity token\<close>

text \<open>
  \<^verbatim>\<open>t = token.lower().replace(" ", "")\<close>, then membership in the two tuples of aliases.
  The Cyrillic aliases are U+043D / U+043D, U+043D - U+043D, U+043D U+043D (odd) and the
  same with U+0447 first (even).
\<close>

definition odd_aliases :: "ustr list" where
  "odd_aliases = [[1085, 47, 1085], [1085, 45, 1085], [1085, 1085], asc ''odd'']"

definition even_aliases :: "ustr list" where
  "even_aliases = [[1095, 47, 1085], [1095, 45, 1085], [1095, 1085], asc ''even'']"

definition detect_parity :: "(ustr \<Rightarrow> ustr) \<Rightarrow> ustr \<Rightarrow> ustr option" where
  "detect_parity lower token =
     (let t = filter (\<lambda>c. c \<noteq> 32) (lower token)
      in if t \<in> set odd_aliases then Some (asc ''odd'')
         else if t \<in> set even_aliases then Some (asc ''even'')
         else None)"

section \<open>The add-lesson command\<close>

text \<open>
  \<open>s[i:j]\<close> and \<open>s.split(sep, 1)[1]\<close>. The slice is written for the indices the
  program uses, \<open>0 \<le> i\<close> and \<open>0 \<le> j\<close>. The split at the first occurrence of \<open>sep\<close>
  has a second piece only when \<open>sep\<close> occurs; otherwise the index raises.
\<close>

definition slice :: "int \<Rightarrow> int \<Rightarrow> ustr \<Rightarrow> ustr" where
  "slice i j s = take (nat (j - i)) (drop (nat i) s)"

definition split_first_snd :: "ustr \<Rightarrow> ustr \<Rightarrow> error + ustr" where
  "split_first_snd sep s =
     (let i = find_str sep s
      in if i = -1 then Inl IndexError else Inr (drop (nat i + length sep) s))"

text \<open>
  \<open>parse_add_lesson_args\<close> runs four stages one after the other; each is a definition
  of its own here, so that what a stage hands to the next has a name. The first stage
  splits off the group, the day and the slot and recovers the tail that should start at
  the title:
  \<^verbatim>\<open>parts = args.split()
  if len(parts) < 4: return None, "..."
  group = parts[0]
  day = parts[1].lower()
  if day not in RU_WEEKDAYS: return None, "..."
  try:
      slot = int(parts[2])
      if slot not in SLOTS: return None, "..."
  except ValueError:
      return None, "..."
  tail = args.split(parts[2], 1)[1].strip()
  if tail.startswith(str(slot)):
      tail = tail[len(str(slot)):].strip()\<close>
\<close>

definition parse_head :: "(ustr \<Rightarrow> ustr) \<Rightarrow> ustr \<Rightarrow> error + (ustr \<times> ustr \<times> int \<times> ustr)" where
  "parse_head lower args =
     (let parts = split_ws args
      in if length parts < 4 then Inl ErrMinParts
         else (let grp = parts ! 0; day = lower (parts ! 1)
               in if day \<notin> set RU_WEEKDAYS then Inl ErrDay
                  else (case py_int (parts ! 2) of
                          None \<Rightarrow> Inl ErrSlotNumber
                        | Some slot \<Rightarrow>
                            if map_of SLOTS slot = None then Inl ErrSlotRange
                            else (case split_first_snd (parts ! 2) args of
                                    Inl e \<Rightarrow> Inl e
                                  | Inr rest \<Rightarrow>
                                      (let tail = strip rest
                                       in Inr (grp, day, slot,
                                               if prefix (py_str slot) tail
                                               then strip (drop (length (py_str slot)) tail)
                                               else tail))))))"

text \<open>
  Then the brackets:
  \<^verbatim>\<open>l = tail.find("(")
  r = tail.find(")")
  if l == -1 or r == -1 or r < l: return None, "..."
  title = tail[:l].strip()
  weeks_raw = tail[l+1:r].strip()
  after = tail[r+1:].strip()\<close>
\<close>

definition split_brackets :: "ustr \<Rightarrow> error + (ustr \<times> ustr \<times> ustr)" where
  "split_brackets tail =
     (let l = find_str [40] tail; r = find_str [41] tail
      in if l = -1 \<or> r = -1 \<or> r < l then Inl ErrBrackets
         else Inr (strip (slice 0 l tail), strip (slice (l + 1) r tail),
                   strip (drop (nat (r + 1)) tail)))"

text \<open>
  Then the parity and the room, from the text after the brackets:
  \<^verbatim>\<open>if after:
      tokens = after.split()
      if tokens:
          p = detect_parity(tokens[0])
          if p:
              parity = p
              room, room_err = _parse_room_from_tokens(tokens, 1)
          else:
              room, room_err = _parse_room_from_tokens(tokens, 0)
      else:
          room_err = "..."
      if room_err: return None, room_err
  else:
      return None, "..."\<close>
\<close>

definition parse_after :: "(ustr \<Rightarrow> ustr) \<Rightarrow> ustr \<Rightarrow> error + (ustr option \<times> ustr)" where
  "parse_after lower after =
     (if after \<noteq> [] then
        (let tokens = split_ws after
         in if tokens \<noteq> [] then
              (case detect_parity lower (tokens ! 0) of
                 Some p \<Rightarrow>
                   (case parse_room_from_tokens lower tokens 1 of
                      Inl room_err \<Rightarrow> Inl room_err
                    | Inr rm \<Rightarrow> Inr (Some p, rm))
               | None \<Rightarrow>
                   (case parse_room_from_tokens lower tokens 0 of
                      Inl room_err \<Rightarrow> Inl room_err
                    | Inr rm \<Rightarrow> Inr (None, rm)))
            else Inl ErrRoomNotGiven)
      else Inl ErrRoomAfterBrackets)"

text \<open>
  The whole function: the three stages, then
  \<^verbatim>\<open>weeks_list = parse_weeks(weeks_raw, max_week=30)
  lesson = Lesson(title=title, room=room, weeks_spec=weeks_raw or "1-30",
                  weeks=weeks_list, parity=parity)
  return (group, day, slot, lesson), None\<close>
  The result is the error on the left, or on the right the group, the day, the slot and
  the lesson.
\<close>

definition parse_add_lesson_args ::
    "(ustr \<Rightarrow> ustr) \<Rightarrow> ustr \<Rightarrow> error + (ustr \<times> ustr \<times> int \<times> lesson)" where
  "parse_add_lesson_args lower args =
     (case parse_head lower args of
        Inl e \<Rightarrow> Inl e
      | Inr (grp, day, slot, tail) \<Rightarrow>
          (case split_brackets tail of
             Inl e \<Rightarrow> Inl e
           | Inr (ttl, weeks_raw, after) \<Rightarrow>
               (case parse_after lower after of
                  Inl e \<Rightarrow> Inl e
                | Inr (par, rm) \<Rightarrow>
                    (let weeks_list = parse_weeks weeks_raw 30
                     in Inr (grp, day, slot,
                             \<lparr>title = ttl, room = rm,
                              weeks_spec = (if weeks_raw \<noteq> [] then weeks_raw else asc ''1-30''),
                              weeks = weeks_list,
                              parity = par\<rparr>)))))"

section \<open>The schedule store and the delete command\<close>

text \<open>
  The stored document is \<open>schedules[group][day][str(slot)]\<close>, each entry the dictionary
  of a lesson. The state of the world is the content of the schedule file (\<open>None\<close> when
  there is no file or it is not JSON, which \<open>load_schedules\<close> reads as the empty
  document), the number of times the file has been written, and the replies sent.
\<close>

type_synonym schedules = "ustr \<rightharpoonup> (ustr \<rightharpoonup> (ustr \<rightharpoonup> lesson))"

datatype reply =
    ReplyAdminOnly | ReplyDelFormat | ReplyDayError | ReplySlotError
  | ReplyNotFound | ReplyDeleted

record world =
  schedule_file :: "schedules option"
  save_count :: nat
  sent :: "reply list"

definition load_schedules :: "world \<Rightarrow> schedules" where
  "load_schedules w = (case schedule_file w of None \<Rightarrow> Map.empty | Some d \<Rightarrow> d)"

definition save_schedules :: "schedules \<Rightarrow> world \<Rightarrow> world" where
  "save_schedules d w = w\<lparr>schedule_file := Some d, save_count := save_count w + 1\<rparr>"

definition answer :: "reply \<Rightarrow> world \<Rightarrow> world" where
  "answer r w = w\<lparr>sent := sent w @ [r]\<rparr>"

text \<open>\<^verbatim>\<open>return ADMIN_ID and uid == ADMIN_ID\<close>, read as a truth value.\<close>

definition is_admin :: "int \<Rightarrow> int \<Rightarrow> bool" where
  "is_admin ADMIN_ID uid \<longleftrightarrow> ADMIN_ID \<noteq> 0 \<and> uid = ADMIN_ID"

text \<open>
  \<open>del_lesson\<close>, with the administrator's id, the sender's id and \<open>command.args\<close> as
  arguments. \<open>schedules.get(group, {}).get(day, {}).pop(str(slot), None)\<close> removes the
  entry from the loaded document when it is there, and the document is saved only then.
\<close>

definition del_lesson :: "(ustr \<Rightarrow> ustr) \<Rightarrow> int \<Rightarrow> int \<Rightarrow> ustr option \<Rightarrow> world \<Rightarrow> world" where
  "del_lesson lower ADMIN_ID uid command_args w =
     (if \<not> is_admin ADMIN_ID uid then answer ReplyAdminOnly w
      else (let args = split_ws (strip (case command_args of None \<Rightarrow> [] | Some a \<Rightarrow> a))
            in if length args < 3 then answer ReplyDelFormat w
               else (let grp = args ! 0; day = lower (args ! 1); slot_s = args ! 2
                     in if day \<notin> set RU_WEEKDAYS then answer ReplyDayError w
                        else (case py_int slot_s of
                                None \<Rightarrow> answer ReplySlotError w
                              | Some slot \<Rightarrow>
                                  if map_of SLOTS slot = None then answer ReplySlotError w
                                  else (let schedules = load_schedules w;
                                            group_data = (case schedules grp of None \<Rightarrow> Map.empty | Some g \<Rightarrow> g);
                                            day_data = (case group_data day of None \<Rightarrow> Map.empty | Some d \<Rightarrow> d)
                                        in case day_data (py_str slot) of
                                             None \<Rightarrow> answer ReplyNotFound w
                                           | Some popped \<Rightarrow>
                                               answer ReplyDeleted
                                                 (save_schedules
                                                    (schedules(grp \<mapsto> group_data(day \<mapsto> day_data(py_str slot := None))))
                                                    w))))))"

section \<open>The week number\<close>

text \<open>
  C1. For every pair of dates: when \<open>today\<close> is not before \<open>start\<close> the week number
  is the number of days between them, divided by seven and rounded down, plus one; when
  \<open>today\<close> is before \<open>start\<close> it is 0.
\<close>

theorem week_number_spec:
  "week_number today start =
     (if date_le start today then \<lfloor>real_of_int (days (date_sub today start)) / 7\<rfloor> + 1 else 0)"
proof -
  let ?d = "days (date_sub today start)"
  have fl: "\<lfloor>real_of_int ?d / 7\<rfloor> = ?d div 7"
    using floor_divide_of_int_eq [of ?d 7] by simp
  have le: "date_le start today \<longleftrightarrow> ?d \<ge> 0"
    by (simp add: date_le_def date_sub_def)
  show ?thesis
    unfolding week_number_def Let_def fl le by simp
qed

theorem week_number_spec_witness:
  "week_number (Date 738400) (Date 738380) = 3 \<and> week_number (Date 738386) (Date 738380) = 1
   \<and> week_number (Date 738387) (Date 738380) = 2 \<and> week_number (Date 738379) (Date 738380) = 0"
  using week_number_spec [of "Date 738400" "Date 738380"]
    week_number_spec [of "Date 738386" "Date 738380"]
    week_number_spec [of "Date 738387" "Date 738380"]
    week_number_spec [of "Date 738379" "Date 738380"]
  by (simp add: date_le_def date_sub_def)

section \<open>Matching a lesson against a week\<close>

text \<open>
  C2. A lesson matches week \<open>wk\<close> exactly when \<open>wk\<close> is at least 1, \<open>wk\<close> is one of
  the lesson's weeks, and the parity allows it: parity \<open>odd\<close> needs an odd week, parity
  \<open>even\<close> an even week, no parity needs nothing. In particular no lesson matches week 0.
\<close>

theorem lesson_matches_week_iff:
  "(lesson_matches_week l wk \<longleftrightarrow>
      wk \<ge> 1 \<and> wk \<in> set (weeks l) \<and>
      (parity l = Some (asc ''odd'') \<longrightarrow> odd wk) \<and>
      (parity l = Some (asc ''even'') \<longrightarrow> even wk))
   \<and> \<not> lesson_matches_week l 0"
proof -
  have "wk mod 2 = 1 \<longleftrightarrow> odd wk" "wk mod 2 = 0 \<longleftrightarrow> even wk"
    by presburger+
  then show ?thesis
    by (auto simp: lesson_matches_week_def)
qed

theorem lesson_matches_week_iff_witness:
  "lesson_matches_week \<lparr>title = [], room = asc ''101'', weeks_spec = [], weeks = [2, 4, 6],
      parity = Some (asc ''even'')\<rparr> 4
   \<and> \<not> lesson_matches_week \<lparr>title = [], room = asc ''101'', weeks_spec = [], weeks = [2, 4, 6],
      parity = Some (asc ''even'')\<rparr> 3
   \<and> \<not> lesson_matches_week \<lparr>title = [], room = asc ''101'', weeks_spec = [], weeks = [1, 2, 3],
      parity = Some (asc ''odd'')\<rparr> 2
   \<and> lesson_matches_week \<lparr>title = [], room = asc ''101'', weeks_spec = [], weeks = [1, 2, 3],
      parity = None\<rparr> 2"
  using lesson_matches_week_iff [of "\<lparr>title = [], room = asc ''101'', weeks_spec = [],
      weeks = [2, 4, 6], parity = Some (asc ''even'')\<rparr>" 4]
    lesson_matches_week_iff [of "\<lparr>title = [], room = asc ''101'', weeks_spec = [],
      weeks = [2, 4, 6], parity = Some (asc ''even'')\<rparr>" 3]
    lesson_matches_week_iff [of "\<lparr>title = [], room = asc ''101'', weeks_spec = [],
      weeks = [1, 2, 3], parity = Some (asc ''odd'')\<rparr>" 2]
    lesson_matches_week_iff [of "\<lparr>title = [], room = asc ''101'', weeks_spec = [],
      weeks = [1, 2, 3], parity = None\<rparr>" 2]
  by simp

section \<open>Properties of the room validator\<close>

lemma strip_no_space: "\<forall>c\<in>set s. \<not> is_space c \<Longrightarrow> strip s = s"
proof (cases s rule: rev_cases)
  case Nil
  then show ?thesis by (simp add: strip_def)
next
  case (snoc ys y)
  assume a: "\<forall>c\<in>set s. \<not> is_space c"
  then have "dropWhile is_space s = s"
    by (cases s) auto
  moreover have "dropWhile is_space (rev s) = rev s"
    using a snoc by simp
  ultimately show ?thesis by (simp add: strip_def)
qed

lemma map_of_ROOM_CANON:
  "map_of ROOM_CANON raw = (if raw = room_do \<or> raw = room_szal then Some raw else None)"
  by (simp add: ROOM_CANON_def)

lemma room_rule:
  assumes "\<forall>t\<in>set tokens. \<forall>c\<in>set t. \<not> is_space c"
  shows "parse_room_from_tokens lower tokens start_idx =
    (let remaining = drop start_idx tokens;
         tok = map (\<lambda>c. if c = 92 then 47 else c) (lower (hd remaining))
     in if length remaining = 1 \<and>
           ((1 \<le> length tok \<and> length tok \<le> 5 \<and> list_all is_digit tok)
            \<or> tok = room_do \<or> tok = room_szal)
        then Inr tok
        else Inl (if remaining = [] then ErrRoomMissing
                  else if length remaining > 1 then ErrRoomOneWord
                  else ErrRoomInvalid))"
proof (cases "start_idx \<ge> length tokens")
  case True
  then show ?thesis by (simp add: parse_room_from_tokens_def)
next
  case False
  then have nth: "hd (drop start_idx tokens) = tokens ! start_idx"
    by (simp add: hd_drop_conv_nth)
  from False have "tokens ! start_idx \<in> set tokens" by simp
  with assms have "strip (tokens ! start_idx) = tokens ! start_idx"
    by (intro strip_no_space) blast
  then have norm: "normalize_room_token lower (tokens ! start_idx) =
      map (\<lambda>c. if c = 92 then 47 else c) (lower (tokens ! start_idx))"
    by (simp add: normalize_room_token_def)
  from False have ne: "drop start_idx tokens \<noteq> []" by simp
  show ?thesis
  proof (cases "length (drop start_idx tokens) = 1")
    case True
    with False show ?thesis
      unfolding parse_room_from_tokens_def Let_def norm nth map_of_ROOM_CANON
        ROOM_DIGITS_RE_fullmatch_def
      by auto
  next
    case neq: False
    with ne have "length (drop start_idx tokens) > 1"
      by (cases "drop start_idx tokens") auto
    with False neq show ?thesis
      unfolding parse_room_from_tokens_def Let_def by auto
  qed
qed

text \<open>
  C7. Given tokens delimited by white space, the room validator accepts exactly when one
  token remains from \<open>start_idx\<close> on and that token, lower-cased and with every backslash
  replaced by a slash, is a string of one to five digits or one of the two symbolic rooms;
  it then returns that normalized token. In every other case it returns an error and no
  room: no token left, more than one token left, or a token of another shape.
\<close>

theorem parse_room_from_tokens_spec:
  assumes "\<forall>t\<in>set tokens. \<forall>c\<in>set t. \<not> is_space c"
  shows "parse_room_from_tokens lower tokens start_idx =
    (let remaining = drop start_idx tokens;
         tok = map (\<lambda>c. if c = 92 then 47 else c) (lower (hd remaining))
     in if length remaining = 1 \<and>
           ((1 \<le> length tok \<and> length tok \<le> 5 \<and> list_all is_digit tok)
            \<or> tok = room_do \<or> tok = room_szal)
        then Inr tok
        else Inl (if remaining = [] then ErrRoomMissing
                  else if length remaining > 1 then ErrRoomOneWord
                  else ErrRoomInvalid))"
  using assms by (rule room_rule)

theorem parse_room_from_tokens_spec_witness:
  "parse_room_from_tokens lower_basic [asc ''101''] 0 = Inr (asc ''101'')
   \<and> parse_room_from_tokens lower_basic [[1044, 47, 1054]] 0 = Inr room_do
   \<and> parse_room_from_tokens lower_basic [asc ''odd'', [1057, 92, 1047, 1040, 1051]] 1 = Inr room_szal
   \<and> parse_room_from_tokens lower_basic [[49, 48, 49, 1072]] 0 = Inl ErrRoomInvalid
   \<and> parse_room_from_tokens lower_basic [asc ''101'', asc ''202''] 0 = Inl ErrRoomOneWord
   \<and> parse_room_from_tokens lower_basic [asc ''101''] 1 = Inl ErrRoomMissing"
proof -
  have h: "\<forall>t\<in>set ts. \<forall>c\<in>set t. \<not> is_space c"
    if "ts \<in> {[asc ''101''], [[1044, 47, 1054]], [[49, 48, 49, 1072]], [asc ''101'', asc ''202''],
          [asc ''odd'', [1057, 92, 1047, 1040, 1051]]}" for ts
    using that by (auto simp: is_space_def)
  show ?thesis
    using parse_room_from_tokens_spec [OF h, of "[asc ''101'']" lower_basic 0]
      parse_room_from_tokens_spec [OF h, of "[[1044, 47, 1054]]" lower_basic 0]
      parse_room_from_tokens_spec [OF h, of "[asc ''odd'', [1057, 92, 1047, 1040, 1051]]" lower_basic 1]
      parse_room_from_tokens_spec [OF h, of "[[49, 48, 49, 1072]]" lower_basic 0]
      parse_room_from_tokens_spec [OF h, of "[asc ''101'', asc ''202'']" lower_basic 0]
      parse_room_from_tokens_spec [OF h, of "[asc ''101'']" lower_basic 1]
    by (simp add: lower_basic_def lower_cp_def room_do_def room_szal_def is_digit_def
        digit_val_def nd_zeros_def)
qed

section \<open>The text after the brackets\<close>

lemma split_run_tokens:
  "\<forall>c\<in>set cur. \<not> is_space c \<Longrightarrow> t \<in> set (split_run cur s) \<Longrightarrow>
     t \<noteq> [] \<and> (\<forall>c\<in>set t. \<not> is_space c)"
proof (induction s arbitrary: cur)
  case Nil
  then show ?case by (cases "cur = []") auto
next
  case (Cons c cs)
  show ?case
  proof (cases "is_space c")
    case True
    with Cons.prems(2) have "(t = rev cur \<and> cur \<noteq> []) \<or> t \<in> set (split_run [] cs)"
      by (cases "cur = []") auto
    then show ?thesis
    proof
      assume "t = rev cur \<and> cur \<noteq> []"
      with Cons.prems(1) show ?thesis by simp
    next
      assume "t \<in> set (split_run [] cs)"
      with Cons.IH [of "[]"] show ?thesis by simp
    qed
  next
    case False
    with Cons.prems(2) have "t \<in> set (split_run (c # cur) cs)" by simp
    moreover have "\<forall>x\<in>set (c # cur). \<not> is_space x"
      using False Cons.prems(1) by simp
    ultimately show ?thesis using Cons.IH [of "c # cur"] by blast
  qed
qed

lemma split_ws_tokens:
  "t \<in> set (split_ws s) \<Longrightarrow> t \<noteq> [] \<and> (\<forall>c\<in>set t. \<not> is_space c)"
  unfolding split_ws_def using split_run_tokens [of "[]" t s] by simp

lemma split_run_Nil: "split_run cur s = [] \<longleftrightarrow> cur = [] \<and> list_all is_space s"
  by (induction s arbitrary: cur) auto

lemma split_ws_Nil: "split_ws s = [] \<longleftrightarrow> list_all is_space s"
  by (simp add: split_ws_def split_run_Nil)

lemma strip_not_all_space: "strip s \<noteq> [] \<Longrightarrow> \<not> list_all is_space (strip s)"
proof -
  assume ne: "strip s \<noteq> []"
  let ?d = "dropWhile is_space (rev (dropWhile is_space s))"
  from ne have d: "?d \<noteq> []" by (simp add: strip_def)
  then have "\<not> is_space (hd ?d)" by (rule hd_dropWhile)
  moreover from d have "hd ?d \<in> set ?d" by simp
  ultimately have "\<exists>c\<in>set (strip s). \<not> is_space c"
    by (auto simp: strip_def)
  then show ?thesis by (simp add: list_all_iff)
qed

lemma split_brackets_after:
  assumes "split_brackets tail = Inr (ttl, weeks_raw, after)" and ne: "after \<noteq> []"
  shows "split_ws after \<noteq> []"
proof -
  from assms(1) have "after = strip (drop (nat (find_str [41] tail + 1)) tail)"
    by (simp add: split_brackets_def Let_def split: if_splits)
  with ne have "\<not> list_all is_space after"
    using strip_not_all_space by blast
  then show ?thesis by (simp add: split_ws_Nil)
qed

lemma room_second_token:
  "length tokens = 2 \<Longrightarrow>
     parse_room_from_tokens lower tokens (Suc 0) = parse_room_from_tokens lower [tokens ! Suc 0] 0"
  by (simp add: parse_room_from_tokens_def)

lemma room_too_few: "length tokens < 2 \<Longrightarrow> parse_room_from_tokens lower tokens (Suc 0) = Inl ErrRoomMissing"
  by (simp add: parse_room_from_tokens_def)

lemma room_too_many_1: "length tokens > 2 \<Longrightarrow> parse_room_from_tokens lower tokens (Suc 0) = Inl ErrRoomOneWord"
  by (simp add: parse_room_from_tokens_def)

lemma room_too_many_0: "length tokens > 1 \<Longrightarrow> parse_room_from_tokens lower tokens 0 = Inl ErrRoomOneWord"
  by (auto simp add: parse_room_from_tokens_def)

lemma parse_after_odd:
  assumes "after \<noteq> []" "split_ws after \<noteq> []"
    and "detect_parity lower (hd (split_ws after)) = Some p"
  shows "parse_after lower after =
     (if length (split_ws after) = 2
      then (case parse_room_from_tokens lower [split_ws after ! 1] 0 of
              Inl e \<Rightarrow> Inl e | Inr rm \<Rightarrow> Inr (Some p, rm))
      else Inl (if length (split_ws after) < 2 then ErrRoomMissing else ErrRoomOneWord))"
proof -
  let ?tokens = "split_ws after"
  have p: "detect_parity lower (?tokens ! 0) = Some p"
    using assms by (simp add: hd_conv_nth)
  have pa: "parse_after lower after =
      (case parse_room_from_tokens lower ?tokens 1 of
         Inl e \<Rightarrow> Inl e | Inr rm \<Rightarrow> Inr (Some p, rm))"
    using assms(1,2) by (simp add: parse_after_def p)
  consider "length ?tokens = 2" | "length ?tokens < 2" | "length ?tokens > 2"
    by linarith
  then show ?thesis
  proof cases
    case 1
    then show ?thesis by (simp add: pa room_second_token)
  next
    case 2
    then show ?thesis by (simp add: pa room_too_few)
  next
    case 3
    then show ?thesis by (simp add: pa room_too_many_1)
  qed
qed

lemma parse_after_plain:
  assumes "after \<noteq> []" "split_ws after \<noteq> []"
    and "detect_parity lower (hd (split_ws after)) = None"
  shows "parse_after lower after =
     (if length (split_ws after) = 1
      then (case parse_room_from_tokens lower (split_ws after) 0 of
              Inl e \<Rightarrow> Inl e | Inr rm \<Rightarrow> Inr (None, rm))
      else Inl ErrRoomOneWord)"
proof -
  let ?tokens = "split_ws after"
  have p: "detect_parity lower (?tokens ! 0) = None"
    using assms by (simp add: hd_conv_nth)
  have pa: "parse_after lower after =
      (case parse_room_from_tokens lower ?tokens 0 of
         Inl e \<Rightarrow> Inl e | Inr rm \<Rightarrow> Inr (None, rm))"
    using assms(1,2) by (simp add: parse_after_def p)
  from assms(2) have "length ?tokens = 1 \<or> length ?tokens > 1"
    by (cases ?tokens) auto
  then show ?thesis
  proof
    assume "length ?tokens = 1"
    then show ?thesis by (simp add: pa)
  next
    assume "length ?tokens > 1"
    then show ?thesis by (simp add: pa room_too_many_0)
  qed
qed

text \<open>
  C6. When the first stages of \<open>parse_add_lesson_args\<close> succeed and leave the text
  \<open>after\<close> behind the closing bracket: an empty \<open>after\<close> is rejected; when its first
  token is a parity alias, that token is the parity and the rest must be exactly one token
  that the room validator accepts, otherwise the command is rejected; when its first token
  is no parity alias, the whole of \<open>after\<close> must be exactly one token that the room
  validator accepts, and in particular two tokens are rejected as "not one word".
\<close>

theorem add_lesson_after_brackets:
  assumes head: "parse_head lower args = Inr (grp, day, slot, tail)"
      and br: "split_brackets tail = Inr (ttl, weeks_raw, after)"
  shows "parse_add_lesson_args lower args =
     (let tokens = split_ws after;
          built = (\<lambda>par rm. Inr (grp, day, slot,
                     \<lparr>title = ttl, room = rm,
                      weeks_spec = (if weeks_raw \<noteq> [] then weeks_raw else asc ''1-30''),
                      weeks = parse_weeks weeks_raw 30, parity = par\<rparr>))
      in if after = [] then Inl ErrRoomAfterBrackets
         else (case detect_parity lower (hd tokens) of
                 Some p \<Rightarrow>
                   if length tokens = 2
                   then (case parse_room_from_tokens lower [tokens ! 1] 0 of
                           Inl e \<Rightarrow> Inl e | Inr rm \<Rightarrow> built (Some p) rm)
                   else Inl (if length tokens < 2 then ErrRoomMissing else ErrRoomOneWord)
               | None \<Rightarrow>
                   if length tokens = 1
                   then (case parse_room_from_tokens lower tokens 0 of
                           Inl e \<Rightarrow> Inl e | Inr rm \<Rightarrow> built None rm)
                   else Inl ErrRoomOneWord))"
proof -
  have step: "parse_add_lesson_args lower args =
      (case parse_after lower after of
         Inl e \<Rightarrow> Inl e
       | Inr (par, rm) \<Rightarrow> Inr (grp, day, slot,
           \<lparr>title = ttl, room = rm,
            weeks_spec = (if weeks_raw \<noteq> [] then weeks_raw else asc ''1-30''),
            weeks = parse_weeks weeks_raw 30, parity = par\<rparr>))"
    by (simp add: parse_add_lesson_args_def head br Let_def split: sum.split)
  show ?thesis
  proof (cases "after = []")
    case True
    then show ?thesis by (simp add: step parse_after_def)
  next
    case False
    with br have ne: "split_ws after \<noteq> []" by (rule split_brackets_after)
    show ?thesis
    proof (cases "detect_parity lower (hd (split_ws after))")
      case None
      show ?thesis
        unfolding step parse_after_plain [OF False ne None]
        using False None by (simp add: Let_def split: sum.split)
    next
      case (Some p)
      show ?thesis
        unfolding step parse_after_odd [OF False ne Some]
        using False Some by (simp add: Let_def split: sum.split)
    qed
  qed
qed

end
